theory Spec2Isabelle
  imports Complex_Main "HOL-Library.Word" "HOL-Library.List_Lexorder" "HOL-Library.Multiset"
begin

section \<open>Values of the platform\<close>

text \<open>
  A string of the program is a sequence of 16-bit code units; \<open><\<close> on two strings is
  the lexicographic order of their code units, which is what the list order of
  \<open>HOL-Library.List_Lexorder\<close> is. \<open>u16\<close> writes an ASCII literal as such a string.
\<close>

type_synonym jsstring = "16 word list"

definition u16 :: "string \<Rightarrow> jsstring" where
  "u16 s = map (\<lambda>c. of_nat (of_char c)) s"

text \<open>
  A number is either NaN or a finite value. Finite values are taken as exact reals:
  rounding and the infinities of the platform's doubles are outside this model, so
  the sum and the product of two finite values are finite here, where the
  platform's can overflow and, from an infinity, become NaN.
  Every comparison with NaN is false.
\<close>

datatype jsnum = NaN | Num real

fun gt :: "jsnum \<Rightarrow> jsnum \<Rightarrow> bool" where
  "gt (Num a) (Num b) = (a > b)"
| "gt _ _ = False"

fun le :: "jsnum \<Rightarrow> jsnum \<Rightarrow> bool" where
  "le (Num a) (Num b) = (a \<le> b)"
| "le _ _ = False"

fun add :: "jsnum \<Rightarrow> jsnum \<Rightarrow> jsnum" where
  "add (Num a) (Num b) = Num (a + b)"
| "add _ _ = NaN"


definition isNaN :: "jsnum \<Rightarrow> bool" where
  "isNaN x = (x = NaN)"

text \<open>
  A dynamically typed value: what \<open>JSON.parse\<close> returns, and what the program builds
  from it. An object is the list of its own properties; a property that is not
  there reads as \<open>Undefined\<close>.
\<close>

datatype jsval =
    Undefined
  | Null
  | JBool bool
  | JNumber jsnum
  | JString jsstring
  | JArray "jsval list"
  | JObject "(jsstring \<times> jsval) list"

datatype jstype = TUndefined | TObject | TBoolean | TNumber | TString

fun typeof :: "jsval \<Rightarrow> jstype" where
  "typeof Undefined = TUndefined"
| "typeof Null = TObject"
| "typeof (JBool b) = TBoolean"
| "typeof (JNumber n) = TNumber"
| "typeof (JString s) = TString"
| "typeof (JArray xs) = TObject"
| "typeof (JObject kvs) = TObject"

fun truthy :: "jsval \<Rightarrow> bool" where
  "truthy Undefined = False"
| "truthy Null = False"
| "truthy (JBool b) = b"
| "truthy (JNumber n) = (n \<noteq> NaN \<and> n \<noteq> Num 0)"
| "truthy (JString s) = (s \<noteq> [])"
| "truthy (JArray xs) = True"
| "truthy (JObject kvs) = True"

text \<open>
  \<open>getProp x k\<close> is \<open>x?.k\<close> for the property names this program reads
  (\<open>id\<close>, \<open>date\<close>, \<open>exercise\<close>, \<open>weight\<close>, \<open>reps\<close>, \<open>note\<close>, \<open>logs\<close>): none of
  them is a property of a string, a number, a boolean or an array, so only an
  object can have one.
\<close>

fun getProp :: "jsval \<Rightarrow> jsstring \<Rightarrow> jsval" where
  "getProp (JObject kvs) k = (case map_of kvs k of Some v \<Rightarrow> v | None \<Rightarrow> Undefined)"
| "getProp _ k = Undefined"

section \<open>Record model\<close>

text \<open>
  The nine exercises. The source's type is a union of nine string literals; \<open>label\<close>
  gives each one's code units (katakana, except the two Latin letters of the eighth).
\<close>

datatype Exercise =
    BenchPress | Squat | Deadlift | ShoulderPress | Rowing
  | SideRaise | LyingExtension | EZBarCurl | Other

fun label :: "Exercise \<Rightarrow> jsstring" where
  "label BenchPress = [0x30D9, 0x30F3, 0x30C1, 0x30D7, 0x30EC, 0x30B9]"
| "label Squat = [0x30B9, 0x30AF, 0x30EF, 0x30C3, 0x30C8]"
| "label Deadlift = [0x30C7, 0x30C3, 0x30C9, 0x30EA, 0x30D5, 0x30C8]"
| "label ShoulderPress = [0x30B7, 0x30E7, 0x30EB, 0x30C0, 0x30FC, 0x30D7, 0x30EC, 0x30B9]"
| "label Rowing = [0x30ED, 0x30FC, 0x30A4, 0x30F3, 0x30B0]"
| "label SideRaise = [0x30B5, 0x30A4, 0x30C9, 0x30EC, 0x30A4, 0x30BA]"
| "label LyingExtension =
     [0x30E9, 0x30A4, 0x30A4, 0x30F3, 0x30B0, 0x30A8, 0x30AF, 0x30B9, 0x30C6, 0x30F3,
      0x30B7, 0x30E7, 0x30F3]"
| "label EZBarCurl = [0x45, 0x5A, 0x30D0, 0x30FC, 0x30AB, 0x30FC, 0x30EB]"
| "label Other = [0x305D, 0x306E, 0x4ED6]"

definition EXERCISES :: "Exercise list" where
  "EXERCISES =
     [BenchPress, Squat, Deadlift, ShoulderPress, Rowing,
      SideRaise, LyingExtension, EZBarCurl, Other]"

text \<open>\<open>EXERCISES.includes(val)\<close>: \<open>val\<close> is a string, and one of the nine.\<close>

fun includesExercise :: "jsval \<Rightarrow> bool" where
  "includesExercise (JString s) = (s \<in> set (map label EXERCISES))"
| "includesExercise _ = False"

fun normalizeExercise :: "jsval \<Rightarrow> Exercise" where
  "normalizeExercise (JString s) =
     (case find (\<lambda>e. label e = s) EXERCISES of Some e \<Rightarrow> e | None \<Rightarrow> Other)"
| "normalizeExercise _ = Other"

record Log =
  id' :: jsstring
  date :: jsstring
  exercise :: Exercise
  weight :: jsnum
  reps :: jsnum
  "note" :: "jsstring option"

text \<open>The object a \<open>Log\<close> is at run time; an absent note is \<open>undefined\<close>.\<close>

definition logVal :: "Log \<Rightarrow> jsval" where
  "logVal l = JObject
     [(u16 ''id'', JString (id' l)),
      (u16 ''date'', JString (date l)),
      (u16 ''exercise'', JString (label (exercise l))),
      (u16 ''weight'', JNumber (weight l)),
      (u16 ''reps'', JNumber (reps l)),
      (u16 ''note'', (case note l of None \<Rightarrow> Undefined | Some n \<Rightarrow> JString n))]"

definition isLog :: "jsval \<Rightarrow> bool" where
  "isLog x \<longleftrightarrow>
     truthy x \<and>
     typeof (getProp x (u16 ''id'')) = TString \<and>
     typeof (getProp x (u16 ''date'')) = TString \<and>
     typeof (getProp x (u16 ''weight'')) = TNumber \<and>
     typeof (getProp x (u16 ''reps'')) = TNumber \<and>
     includesExercise (getProp x (u16 ''exercise''))"

section \<open>Reconciliation: merge by identifier\<close>

text \<open>
  The platform's \<open>Map\<close>: keys in the order of their first insertion; \<open>set\<close> on a key
  that is there replaces its value in place.
\<close>

fun map_set :: "'k \<Rightarrow> 'v \<Rightarrow> ('k \<times> 'v) list \<Rightarrow> ('k \<times> 'v) list" where
  "map_set k v [] = [(k, v)]"
| "map_set k v ((k', v') # m) =
     (if k' = k then (k', v) # m else (k', v') # map_set k v m)"


definition map_values :: "('k \<times> 'v) list \<Rightarrow> 'v list" where
  "map_values m = map snd m"

text \<open>
  \<open>Array.prototype.sort\<close> with the comparator
  \<open>(a, b) => a.date < b.date ? 1 : a.date > b.date ? -1 : 0\<close>: a stable sort, later
  dates first. The model is the stable insertion sort.
\<close>

fun insertByDate :: "Log \<Rightarrow> Log list \<Rightarrow> Log list" where
  "insertByDate x [] = [x]"
| "insertByDate x (y # ys) =
     (if date x < date y then y # insertByDate x ys else x # y # ys)"

definition sortByDateDesc :: "Log list \<Rightarrow> Log list" where
  "sortByDateDesc xs = foldr insertByDate xs []"

definition mergeLogs :: "Log list \<Rightarrow> Log list \<Rightarrow> Log list" where
  "mergeLogs prev incoming =
     sortByDateDesc (map_values
       (foldl (\<lambda>m l. if \<not> isLog (logVal l) then m else map_set (id' l) l m)
          [] (prev @ incoming)))"

text \<open>The map of the merge when every entry passes the guard.\<close>

definition keyed :: "Log list \<Rightarrow> (jsstring \<times> Log) list" where
  "keyed ls = foldl (\<lambda>m l. map_set (id' l) l m) [] ls"

section \<open>Aggregation: best weights and personal records\<close>

text \<open>
  The source computes the best weight per exercise three times with the same loop
  (over all entries, over the entries of the selected date, over the others):
  every exercise starts at 0 and an entry replaces the value when its weight is
  greater. \<open>bestWeights\<close> is that loop.
\<close>

definition bestWeights :: "Log list \<Rightarrow> Exercise \<Rightarrow> jsnum" where
  "bestWeights ls =
     foldl (\<lambda>res l. if gt (weight l) (res (exercise l)) then res(exercise l := weight l) else res)
       (\<lambda>e. Num 0) ls"

definition logsForDate :: "Log list \<Rightarrow> jsstring \<Rightarrow> Log list" where
  "logsForDate logs dateStr = filter (\<lambda>l. date l = dateStr) logs"

definition todayBestByExercise :: "Log list \<Rightarrow> jsstring \<Rightarrow> Exercise \<Rightarrow> jsnum" where
  "todayBestByExercise logs dateStr = bestWeights (logsForDate logs dateStr)"

definition prevBestByExercise :: "Log list \<Rightarrow> jsstring \<Rightarrow> Exercise \<Rightarrow> jsnum" where
  "prevBestByExercise logs dateStr = bestWeights (filter (\<lambda>l. date l \<noteq> dateStr) logs)"

definition prSet :: "Log list \<Rightarrow> jsstring \<Rightarrow> Exercise list" where
  "prSet logs dateStr =
     filter (\<lambda>ex. gt (todayBestByExercise logs dateStr ex) (Num 0) \<and>
                  gt (todayBestByExercise logs dateStr ex) (prevBestByExercise logs dateStr ex))
       EXERCISES"

text \<open>
  The specification's best weight: the maximum of the weights recorded for the
  exercise, and 0 when there is none. A weight that is NaN is not a recorded weight.
\<close>

definition weightsOf :: "Log list \<Rightarrow> Exercise \<Rightarrow> real set" where
  "weightsOf ls e = {w. \<exists>l \<in> set ls. exercise l = e \<and> weight l = Num w}"

definition bestWeight_spec :: "Log list \<Rightarrow> Exercise \<Rightarrow> real" where
  "bestWeight_spec ls e = Max (insert 0 (weightsOf ls e))"

text \<open>Bench press entries of the specification's scenario.\<close>

definition benchPress :: "string \<Rightarrow> string \<Rightarrow> real \<Rightarrow> Log" where
  "benchPress i d w =
     \<lparr>id' = u16 i, date = u16 d, exercise = BenchPress, weight = Num w, reps = Num 5,
      note = None\<rparr>"

definition tieLogs :: "Log list" where
  "tieLogs =
     [benchPress ''a'' ''2024-01-01'' 80, benchPress ''b'' ''2024-01-02'' 85,
      benchPress ''c'' ''2024-01-03'' 85]"

section \<open>Strings of the platform\<close>

definition LF :: "16 word" where "LF = 0x0A"
definition CR :: "16 word" where "CR = 0x0D"
definition COMMA :: "16 word" where "COMMA = 0x2C"
definition QUOTE :: "16 word" where "QUOTE = 0x22"

text \<open>\<open>Array.prototype.join\<close> on strings.\<close>

fun join :: "jsstring \<Rightarrow> jsstring list \<Rightarrow> jsstring" where
  "join sep [] = []"
| "join sep [x] = x"
| "join sep (x # y # ys) = x @ sep @ join sep (y # ys)"

text \<open>\<open>String.prototype.split\<close> at one code unit: always at least one piece.\<close>

fun split :: "16 word \<Rightarrow> jsstring \<Rightarrow> jsstring list" where
  "split sep [] = [[]]"
| "split sep (c # cs) =
     (if c = sep then [] # split sep cs
      else (let r = split sep cs in (c # hd r) # tl r))"

definition endsWith :: "jsstring \<Rightarrow> jsstring \<Rightarrow> bool" where
  "endsWith s suffix =
     (length suffix \<le> length s \<and> drop (length s - length suffix) s = suffix)"

text \<open>The white space and line terminators that \<open>String.prototype.trim\<close> removes.\<close>

definition isWhiteSpace :: "16 word \<Rightarrow> bool" where
  "isWhiteSpace c =
     (c \<in> {0x09, 0x0A, 0x0B, 0x0C, 0x0D, 0x20, 0xA0, 0x1680, 0x2028, 0x2029,
            0x202F, 0x205F, 0x3000, 0xFEFF}
      \<or> (0x2000 \<le> c \<and> c \<le> 0x200A))"

definition trim :: "jsstring \<Rightarrow> jsstring" where
  "trim s = rev (dropWhile isWhiteSpace (rev (dropWhile isWhiteSpace s)))"

text \<open>
  What the program takes from the platform and does not define itself:
  the conversions between numbers and strings (\<open>String(n)\<close>, \<open>Number(s)\<close>),
  \<open>JSON.parse\<close> (\<open>None\<close> when it throws), the identifier built from the clock
  and the random source for the \<open>n\<close>-th element of a JSON import, and the random
  suffix for the \<open>n\<close>-th row of a CSV import.
\<close>

record Platform =
  String_num :: "jsnum \<Rightarrow> jsstring"
  Number_str :: "jsstring \<Rightarrow> jsnum"
  JSON_parse :: "jsstring \<Rightarrow> jsval option"
  freshId :: "nat \<Rightarrow> jsstring"
  randomSuffix :: "nat \<Rightarrow> jsstring"

text \<open>
  \<open>String(v)\<close>: an array is its elements joined by commas, \<open>null\<close> and \<open>undefined\<close>
  elements as the empty string; an object is \<open>[object Object]\<close>. An object whose text
  gives it a \<open>toString\<close> or \<open>valueOf\<close> property of its own, for which the platform's
  conversion throws, is outside this model.
\<close>

fun ToString :: "Platform \<Rightarrow> jsval \<Rightarrow> jsstring" where
  "ToString P Undefined = u16 ''undefined''"
| "ToString P Null = u16 ''null''"
| "ToString P (JBool b) = (if b then u16 ''true'' else u16 ''false'')"
| "ToString P (JNumber n) = String_num P n"
| "ToString P (JString s) = s"
| "ToString P (JArray xs) =
     join [COMMA] (map (\<lambda>x. if x = Undefined \<or> x = Null then [] else ToString P x) xs)"
| "ToString P (JObject kvs) = u16 ''[object Object]''"

text \<open>\<open>Number(v)\<close>.\<close>

fun ToNumber :: "Platform \<Rightarrow> jsval \<Rightarrow> jsnum" where
  "ToNumber P Undefined = NaN"
| "ToNumber P Null = Num 0"
| "ToNumber P (JBool b) = (if b then Num 1 else Num 0)"
| "ToNumber P (JNumber n) = n"
| "ToNumber P (JString s) = Number_str P s"
| "ToNumber P (JArray xs) = Number_str P (ToString P (JArray xs))"
| "ToNumber P (JObject kvs) = Number_str P (ToString P (JObject kvs))"

section \<open>Serialization: JSON\<close>

text \<open>
  \<open>STORAGE_VERSION\<close> is 2. \<open>jsonOfLog\<close> is the value that \<open>JSON.parse\<close> reads back
  from what \<open>JSON.stringify\<close> writes for an entry: an absent note is left out and
  NaN is written as \<open>null\<close>. \<open>exportJSON\<close> is that value for the payload
  \<open>{version, logs}\<close>.
\<close>

definition jsonOfNumber :: "jsnum \<Rightarrow> jsval" where
  "jsonOfNumber n = (if isNaN n then Null else JNumber n)"

definition jsonOfLog :: "Log \<Rightarrow> jsval" where
  "jsonOfLog l = JObject
     ([(u16 ''id'', JString (id' l)),
       (u16 ''date'', JString (date l)),
       (u16 ''exercise'', JString (label (exercise l))),
       (u16 ''weight'', jsonOfNumber (weight l)),
       (u16 ''reps'', jsonOfNumber (reps l))]
      @ (case note l of None \<Rightarrow> [] | Some n \<Rightarrow> [(u16 ''note'', JString n)]))"

definition exportJSON :: "Log list \<Rightarrow> jsval" where
  "exportJSON logs =
     JObject [(u16 ''version'', JNumber (Num 2)), (u16 ''logs'', JArray (map jsonOfLog logs))]"

text \<open>
  The JSON branch of \<open>onImportFile\<close>: the array to read, the entry built from each
  element (\<open>fresh\<close> is the generated identifier), and the filter by \<open>isLog\<close>.
\<close>

definition importArray :: "jsval \<Rightarrow> jsval list" where
  "importArray obj =
     (case obj of
        JArray xs \<Rightarrow> xs
      | _ \<Rightarrow>
         (if truthy obj \<and> typeof obj = TObject
          then (case getProp obj (u16 ''logs'') of JArray ys \<Rightarrow> ys | _ \<Rightarrow> [])
          else []))"

definition importEntry :: "Platform \<Rightarrow> jsstring \<Rightarrow> jsval \<Rightarrow> Log" where
  "importEntry P fresh l =
     \<lparr>id' = (case getProp l (u16 ''id'') of JString s \<Rightarrow> s | _ \<Rightarrow> fresh),
      date = take 10 (ToString P
               (if truthy (getProp l (u16 ''date'')) then getProp l (u16 ''date'')
                else JString [])),
      exercise = normalizeExercise (getProp l (u16 ''exercise'')),
      weight = ToNumber P (getProp l (u16 ''weight'')),
      reps = ToNumber P (getProp l (u16 ''reps'')),
      note = (case getProp l (u16 ''note'') of
                JString s \<Rightarrow> if trim s \<noteq> [] then Some s else None
              | _ \<Rightarrow> None)\<rparr>"

definition importJSON :: "Platform \<Rightarrow> jsval \<Rightarrow> Log list" where
  "importJSON P obj =
     filter (\<lambda>l. isLog (logVal l))
       (map (\<lambda>(n, l). importEntry P (freshId P n) l) (enumerate 0 (importArray obj)))"

section \<open>Serialization: CSV\<close>

definition CSV_HEADER :: "jsstring list" where
  "CSV_HEADER = [u16 ''date'', u16 ''exercise'', u16 ''weight'', u16 ''reps'', u16 ''note'']"

record CsvRow =
  r_date :: jsstring
  r_exercise :: jsstring
  r_weight :: jsstring
  r_reps :: jsstring
  r_note :: "jsstring option"

text \<open>\<open>replace(/"/g, '""')\<close> and the test \<open>/[",\n]/\<close>.\<close>

definition doubleQuotes :: "jsstring \<Rightarrow> jsstring" where
  "doubleQuotes s = concat (map (\<lambda>c. if c = QUOTE then [QUOTE, QUOTE] else [c]) s)"

definition needsQuoting :: "jsstring \<Rightarrow> bool" where
  "needsQuoting v = (QUOTE \<in> set v \<or> COMMA \<in> set v \<or> LF \<in> set v)"

text \<open>
  \<open>toCSV\<close>: each entry becomes an object of five strings; each line takes the
  properties in the order of \<open>CSV_HEADER\<close> (\<open>r[k] ?? ""\<close>).
\<close>

definition csvObject :: "Platform \<Rightarrow> Log \<Rightarrow> (jsstring \<times> jsstring) list" where
  "csvObject P l =
     [(u16 ''date'', date l),
      (u16 ''exercise'', label (exercise l)),
      (u16 ''weight'', String_num P (weight l)),
      (u16 ''reps'', String_num P (reps l)),
      (u16 ''note'', doubleQuotes (case note l of None \<Rightarrow> [] | Some n \<Rightarrow> n))]"

definition csvCell :: "(jsstring \<times> jsstring) list \<Rightarrow> jsstring \<Rightarrow> jsstring" where
  "csvCell r k =
     (let v = (case map_of r k of Some v \<Rightarrow> v | None \<Rightarrow> [])
      in if needsQuoting v then [QUOTE] @ v @ [QUOTE] else v)"

definition toCSV :: "Platform \<Rightarrow> Log list \<Rightarrow> jsstring" where
  "toCSV P logs =
     (let rows = map (csvObject P) logs;
          header = join [COMMA] CSV_HEADER;
          body = join [LF] (map (\<lambda>r. join [COMMA] (map (csvCell r) CSV_HEADER)) rows)
      in header @ [LF] @ body)"

text \<open>\<open>replace(/\r\n?/g, "\n")\<close>.\<close>

fun normalizeNewlines :: "jsstring \<Rightarrow> jsstring" where
  "normalizeNewlines [] = []"
| "normalizeNewlines [c] = (if c = CR then [LF] else [c])"
| "normalizeNewlines (c # d # ds) =
     (if c = CR then (if d = LF then LF # normalizeNewlines ds else LF # normalizeNewlines (d # ds))
      else c # normalizeNewlines (d # ds))"

definition csvLines :: "jsstring \<Rightarrow> jsstring list" where
  "csvLines text = filter (\<lambda>s. s \<noteq> []) (split LF (normalizeNewlines text))"

text \<open>\<open>findIndex\<close> is \<open>-1\<close> when nothing matches; \<open>row[i]\<close> is \<open>undefined\<close> out of range.\<close>

fun findIndex :: "('a \<Rightarrow> bool) \<Rightarrow> 'a list \<Rightarrow> int" where
  "findIndex p [] = - 1"
| "findIndex p (x # xs) =
     (if p x then 0 else (let i = findIndex p xs in if i < 0 then - 1 else i + 1))"

definition elemAt :: "'a list \<Rightarrow> int \<Rightarrow> 'a option" where
  "elemAt xs i = (if 0 \<le> i \<and> nat i < length xs then Some (xs ! nat i) else None)"

text \<open>
  The scanner of one line: the rest of the line, the field being read, whether it
  is inside quotes, and the fields read so far. Inside quotes a quote followed by
  a quote is one quote of the field; any other quote ends the quoted part.
\<close>

fun scanLine :: "jsstring \<Rightarrow> jsstring \<Rightarrow> bool \<Rightarrow> jsstring list \<Rightarrow> jsstring list" where
  "scanLine [] cur inQ row = row @ [cur]"
| "scanLine (ch # rest) cur True row =
     (if ch = QUOTE then
        (case rest of
           [] \<Rightarrow> scanLine rest cur False row
         | nxt # rest' \<Rightarrow>
             if nxt = QUOTE then scanLine rest' (cur @ [QUOTE]) True row
             else scanLine rest cur False row)
      else scanLine rest (cur @ [ch]) True row)"
| "scanLine (ch # rest) cur False row =
     (if ch = COMMA then scanLine rest [] False (row @ [cur])
      else if ch = QUOTE then scanLine rest cur True row
      else scanLine rest (cur @ [ch]) False row)"

datatype jserror = TypeError

definition orEmpty :: "jsstring option \<Rightarrow> jsstring" where
  "orEmpty v = (case v of Some s \<Rightarrow> s | None \<Rightarrow> [])"

definition csvRowOf :: "jsstring list \<Rightarrow> jsstring \<Rightarrow> CsvRow" where
  "csvRowOf header line =
     (let idx = (\<lambda>name. findIndex (\<lambda>h. h = name) header);
          row = scanLine line [] False []
      in \<lparr>r_date = orEmpty (elemAt row (idx (u16 ''date''))),
          r_exercise = orEmpty (elemAt row (idx (u16 ''exercise''))),
          r_weight = orEmpty (elemAt row (idx (u16 ''weight''))),
          r_reps = orEmpty (elemAt row (idx (u16 ''reps''))),
          r_note = Some (orEmpty (elemAt row (idx (u16 ''note''))))\<rparr>)"

text \<open>\<open>lines[0].split(",")\<close> throws a TypeError when there is no line.\<close>

definition parseCSV :: "jsstring \<Rightarrow> jserror + CsvRow list" where
  "parseCSV text =
     (case csvLines text of
        [] \<Rightarrow> Inl TypeError
      | l0 # rest \<Rightarrow> Inr (map (csvRowOf (map trim (split COMMA l0))) rest))"

definition csvRowToLog :: "Platform \<Rightarrow> jsstring \<Rightarrow> CsvRow \<Rightarrow> Log option" where
  "csvRowToLog P suffix r =
     (let w = Number_str P (r_weight r);
          rp = Number_str P (r_reps r);
          d = take 10 (if r_date r \<noteq> [] then r_date r else []);
          ex = normalizeExercise (JString (r_exercise r));
          i = d @ u16 ''-'' @ label ex @ u16 ''-'' @ suffix;
          n = (case r_note r of
                 Some s \<Rightarrow> if s \<noteq> [] \<and> trim s \<noteq> [] then Some s else None
               | None \<Rightarrow> None)
      in if d = [] \<or> isNaN w \<or> isNaN rp \<or> le w (Num 0) \<or> le rp (Num 0) then None
         else Some \<lparr>id' = i, date = d, exercise = ex, weight = w, reps = rp, note = n\<rparr>)"

definition csvRowsToLogs :: "Platform \<Rightarrow> CsvRow list \<Rightarrow> Log list" where
  "csvRowsToLogs P rows =
     List.map_filter (\<lambda>(n, r). csvRowToLog P (randomSuffix P n) r) (enumerate 0 rows)"

section \<open>Import of a file\<close>

text \<open>
  The state the import handler changes: the collection and the toast. The four
  messages are written by their code units; the two counts go through \<open>String\<close>.
\<close>

record AppState =
  logs :: "Log list"
  toast :: jsstring

definition toastImported :: "Platform \<Rightarrow> jsstring \<Rightarrow> nat \<Rightarrow> jsstring" where
  "toastImported P kind n =
     kind @ [0x3092] @ String_num P (Num (of_nat n))
       @ [0x4EF6, 0x30A4, 0x30F3, 0x30DD, 0x30FC, 0x30C8, 0x3057, 0x305F, 0x3088]"

definition toastRejected :: jsstring where
  "toastRejected =
     u16 ''.json '' @ [0x304B] @ u16 '' .csv '' @ [0x3092, 0x9078, 0x3093, 0x3067, 0x306D]"

definition toastFailed :: jsstring where
  "toastFailed =
     [0x30A4, 0x30F3, 0x30DD, 0x30FC, 0x30C8, 0x306B, 0x5931, 0x6557, 0x3057, 0x305F, 0x3088]"

text \<open>
  \<open>onImportFile\<close>: no file, nothing happens; a throw of \<open>JSON.parse\<close> or of
  \<open>parseCSV\<close> is caught and reported.
\<close>

definition onImportFile :: "Platform \<Rightarrow> AppState \<Rightarrow> (jsstring \<times> jsstring) option \<Rightarrow> AppState" where
  "onImportFile P st file =
     (case file of
        None \<Rightarrow> st
      | Some (name, text) \<Rightarrow>
          if endsWith name (u16 ''.json'') then
            (case JSON_parse P text of
               None \<Rightarrow> st\<lparr>toast := toastFailed\<rparr>
             | Some obj \<Rightarrow>
                 (let incoming = importJSON P obj
                  in \<lparr>logs = mergeLogs (logs st) incoming,
                      toast = toastImported P (u16 ''JSON'') (length incoming)\<rparr>))
          else if endsWith name (u16 ''.csv'') then
            (case parseCSV text of
               Inl e \<Rightarrow> st\<lparr>toast := toastFailed\<rparr>
             | Inr rows \<Rightarrow>
                 (let incoming = csvRowsToLogs P rows
                  in \<lparr>logs = mergeLogs (logs st) incoming,
                      toast = toastImported P (u16 ''CSV'') (length incoming)\<rparr>))
          else st\<lparr>toast := toastRejected\<rparr>)"

section \<open>A platform for the examples\<close>

text \<open>
  The decimal numeral of a natural number, and a platform whose conversions are
  right on the non-negative integers and on the strings of decimal digits (and on
  the blank string, which \<open>Number\<close> reads as 0); the examples use no other number.
\<close>

definition digit :: "nat \<Rightarrow> 16 word" where
  "digit d = of_nat (48 + d)"

fun natDigits :: "nat \<Rightarrow> jsstring" where
  "natDigits n = (if n < 10 then [digit n] else natDigits (n div 10) @ [digit (n mod 10)])"

definition isDigit :: "16 word \<Rightarrow> bool" where
  "isDigit c = (0x30 \<le> c \<and> c \<le> 0x39)"

definition digitsValue :: "jsstring \<Rightarrow> nat" where
  "digitsValue s = foldl (\<lambda>v c. 10 * v + (unat c - 48)) 0 s"

definition decimalNumber :: "jsstring \<Rightarrow> jsnum" where
  "decimalNumber s =
     (let t = trim s
      in if t = [] then Num 0
         else if list_all isDigit t then Num (of_nat (digitsValue t))
         else NaN)"

definition decimalString :: "jsnum \<Rightarrow> jsstring" where
  "decimalString n = (case n of NaN \<Rightarrow> u16 ''NaN'' | Num r \<Rightarrow> natDigits (nat \<lfloor>r\<rfloor>))"

definition examplePlatform :: Platform where
  "examplePlatform =
     \<lparr>String_num = decimalString, Number_str = decimalNumber, JSON_parse = (\<lambda>s. None),
      freshId = (\<lambda>n. u16 ''fresh-'' @ natDigits n),
      randomSuffix = (\<lambda>n. u16 ''r'' @ natDigits n)\<rparr>"

section \<open>Entries of the data model and of the examples\<close>

text \<open>
  An entry of the data model: a date that is not empty and has at most the ten code
  units of \<open>YYYY-MM-DD\<close>, a positive weight, a positive number of repetitions, and a
  note that is absent or not blank.
\<close>

definition validEntry :: "Log \<Rightarrow> bool" where
  "validEntry l \<longleftrightarrow>
     date l \<noteq> [] \<and> length (date l) \<le> 10 \<and>
     gt (weight l) (Num 0) \<and> gt (reps l) (Num 0) \<and>
     (case note l of None \<Rightarrow> True | Some n \<Rightarrow> trim n \<noteq> [])"

definition squatWithNote :: "jsstring \<Rightarrow> Log" where
  "squatWithNote n =
     \<lparr>id' = u16 ''s1'', date = u16 ''2024-02-01'', exercise = Squat, weight = Num 100,
      reps = Num 3, note = Some n\<rparr>"

text \<open>A JSON element with an empty date, a negative weight and no repetition.\<close>

definition invalidElement :: jsval where
  "invalidElement = JObject
     [(u16 ''id'', JString (u16 ''x'')),
      (u16 ''date'', JString []),
      (u16 ''exercise'', JString (label Squat)),
      (u16 ''weight'', JNumber (Num (- 5))),
      (u16 ''reps'', JNumber (Num 0))]"



text \<open>
  The composition of \<open>toCSV\<close>, \<open>parseCSV\<close> and \<open>csvRowsToLogs\<close>, and a note of two
  lines.
\<close>

definition csvRoundTrip :: "Platform \<Rightarrow> Log list \<Rightarrow> jserror + Log list" where
  "csvRoundTrip P ls =
     (case parseCSV (toCSV P ls) of
        Inl e \<Rightarrow> Inl e
      | Inr rows \<Rightarrow> Inr (csvRowsToLogs P rows))"

definition twoLineNote :: jsstring where
  "twoLineNote = u16 ''a'' @ [LF] @ u16 ''b''"

section \<open>One-shot migration of the legacy snapshot\<close>

text \<open>
  The rows of the batch: an absent note is \<open>null\<close> here. The batch insert is the
  remote store's: its promise is fulfilled with a response whose \<open>error\<close> is null
  (\<open>None\<close>) or an error, or it is rejected.
\<close>

record MigrationRow =
  row_date :: jsstring
  row_exercise :: Exercise
  row_weight :: jsnum
  row_reps :: jsnum
  row_note :: "jsstring option"
  user_id :: jsstring

datatype insertResult = Fulfilled "jsstring option" | Rejected

definition migrationRow :: "Platform \<Rightarrow> jsstring \<Rightarrow> jsval \<Rightarrow> MigrationRow" where
  "migrationRow P userId l =
     \<lparr>row_date = take 10 (ToString P
                   (if truthy (getProp l (u16 ''date'')) then getProp l (u16 ''date'')
                    else JString [])),
      row_exercise = normalizeExercise (getProp l (u16 ''exercise'')),
      row_weight = ToNumber P (getProp l (u16 ''weight'')),
      row_reps = ToNumber P (getProp l (u16 ''reps'')),
      row_note = (case getProp l (u16 ''note'') of
                    JString s \<Rightarrow> if trim s \<noteq> [] then Some s else None
                  | _ \<Rightarrow> None),
      user_id = userId\<rparr>"

definition migrationRows :: "Platform \<Rightarrow> jsstring \<Rightarrow> jsval list \<Rightarrow> MigrationRow list" where
  "migrationRows P userId arr =
     filter (\<lambda>r. row_date r \<noteq> [] \<and> gt (row_weight r) (Num 0) \<and> gt (row_reps r) (Num 0))
       (map (migrationRow P userId) arr)"

text \<open>
  The migration effect, from the stored snapshot (\<open>None\<close> when the key is not
  there) to the batch it submits, if any, and the stored snapshot afterwards. The
  callback of \<open>then\<close> removes the snapshot; it runs when the promise is fulfilled
  and does not look at the response. A throw of \<open>JSON.parse\<close> is caught and ignored.
\<close>

definition migrate ::
  "Platform \<Rightarrow> jsstring \<Rightarrow> (MigrationRow list \<Rightarrow> insertResult) \<Rightarrow> jsstring option
     \<Rightarrow> MigrationRow list option \<times> jsstring option" where
  "migrate P userId insertBatch stored =
     (case stored of
        None \<Rightarrow> (None, stored)
      | Some raw \<Rightarrow>
          if raw = [] then (None, stored)
          else
            (case JSON_parse P raw of
               None \<Rightarrow> (None, stored)
             | Some parsed \<Rightarrow>
                 (case (case parsed of JArray xs \<Rightarrow> parsed | _ \<Rightarrow> getProp parsed (u16 ''logs'')) of
                    JArray arr \<Rightarrow>
                      if length arr = 0 then (None, stored)
                      else
                        (let rows = migrationRows P userId arr
                         in (Some rows,
                             (case insertBatch rows of
                                Fulfilled err \<Rightarrow> None
                              | Rejected \<Rightarrow> stored)))
                  | _ \<Rightarrow> (None, stored))))"

text \<open>A platform whose \<open>JSON.parse\<close> reads the stored text as a snapshot of one entry.\<close>

definition snapshotPlatform :: Platform where
  "snapshotPlatform =
     examplePlatform\<lparr>JSON_parse := (\<lambda>s. Some (exportJSON [squatWithNote (u16 ''ok'')]))\<rparr>"

section \<open>Aggregation: the daily volume of the last thirty days\<close>



















text \<open>
  The specification's validity of an entry (the exercise is one of the nine by its
  type), and what the JSON import makes of an entry that was exported: the date
  cut to ten code units, a NaN, which is written as \<open>null\<close>, read as 0, and a blank
  note dropped.
\<close>

definition valid_spec :: "Log \<Rightarrow> bool" where
  "valid_spec l \<longleftrightarrow> date l \<noteq> [] \<and> gt (weight l) (Num 0) \<and> gt (reps l) (Num 0)"

definition reimported :: "Log \<Rightarrow> Log" where
  "reimported l =
     l\<lparr>date := take 10 (date l),
       weight := (if isNaN (weight l) then Num 0 else weight l),
       reps := (if isNaN (reps l) then Num 0 else reps l),
       note := (case note l of
                  None \<Rightarrow> None
                | Some n \<Rightarrow> if trim n \<noteq> [] then Some n else None)\<rparr>"

text \<open>An entry whose date carries a time of day, as a stored snapshot may hold it.\<close>

definition longDateEntry :: Log where
  "longDateEntry =
     \<lparr>id' = u16 ''t1'', date = u16 ''2024-02-01T10:00'', exercise = Squat, weight = Num 100,
      reps = Num 3, note = None\<rparr>"



section \<open>Properties of the merge\<close>

lemma label_in_EXERCISES: "label e \<in> set (map label EXERCISES)"
  by (cases e) (simp_all add: EXERCISES_def)

lemma isLog_logVal: "isLog (logVal l)"
  using label_in_EXERCISES [of "exercise l"]
  by (simp add: isLog_def logVal_def u16_def)

lemma map_set_keys_old: "k \<in> fst ` set m \<Longrightarrow> map fst (map_set k v m) = map fst m"
proof (induction m)
  case Nil
  then show ?case by simp
next
  case (Cons a m)
  show ?case
  proof (cases "fst a = k")
    case True
    then show ?thesis by (cases a) simp
  next
    case False
    then have "k \<in> fst ` set m" using Cons.prems by auto
    then show ?thesis using Cons.IH False by (cases a) simp
  qed
qed

lemma map_set_keys_new: "k \<notin> fst ` set m \<Longrightarrow> map fst (map_set k v m) = map fst m @ [k]"
  by (induction m) auto

lemma map_set_keys:
  "map fst (map_set k v m) = (if k \<in> fst ` set m then map fst m else map fst m @ [k])"
  by (simp add: map_set_keys_old map_set_keys_new)

lemma map_set_distinct: "distinct (map fst m) \<Longrightarrow> distinct (map fst (map_set k v m))"
  by (simp add: map_set_keys)

lemma map_set_map_of:
  "map_of (map_set k v m) = (map_of m)(k \<mapsto> v)"
  by (induction m) (auto simp: fun_eq_iff)

lemma foldl_map_set_distinct:
  "distinct (map fst m) \<Longrightarrow> distinct (map fst (foldl (\<lambda>m l. map_set (id' l) l m) m ls))"
  by (induction ls arbitrary: m) (simp_all add: map_set_distinct)

lemma map_set_key_is_id:
  "\<forall>(k, l) \<in> set m. id' l = k \<Longrightarrow> \<forall>(k, l) \<in> set (map_set (id' a) a m). id' l = k"
  by (induction m) (auto split: if_splits)

lemma find_app:
  "find P (xs @ ys) = (case find P xs of None \<Rightarrow> find P ys | Some x \<Rightarrow> Some x)"
  by (induction xs) auto

lemma foldl_map_set_key_is_id:
  "\<forall>(k, l) \<in> set m. id' l = k \<Longrightarrow>
   \<forall>(k, l) \<in> set (foldl (\<lambda>m l. map_set (id' l) l m) m ls). id' l = k"
proof (induction ls arbitrary: m)
  case Nil
  then show ?case by simp
next
  case (Cons a ls)
  have "\<forall>(k, l) \<in> set (map_set (id' a) a m). id' l = k"
    using Cons.prems by (rule map_set_key_is_id)
  then show ?case using Cons.IH by simp
qed

lemma foldl_map_set_map_of:
  "map_of (foldl (\<lambda>m l. map_set (id' l) l m) m ls) i =
     (case find (\<lambda>l. id' l = i) (rev ls) of Some l \<Rightarrow> Some l | None \<Rightarrow> map_of m i)"
proof (induction ls arbitrary: m)
  case Nil
  then show ?case by simp
next
  case (Cons a ls)
  show ?case
    by (simp add: Cons.IH map_set_map_of find_app split: option.splits)
qed

lemma keyed_distinct: "distinct (map fst (keyed ls))"
  by (simp add: keyed_def foldl_map_set_distinct)

lemma keyed_key_is_id: "(k, l) \<in> set (keyed ls) \<Longrightarrow> id' l = k"
  using foldl_map_set_key_is_id [of "[]" ls] by (auto simp: keyed_def)

lemma keyed_map_of: "map_of (keyed ls) i = find (\<lambda>l. id' l = i) (rev ls)"
  by (simp add: keyed_def foldl_map_set_map_of split: option.splits)

lemma keyed_ids: "map id' (map_values (keyed ls)) = map fst (keyed ls)"
  using keyed_key_is_id [of _ _ ls] by (auto simp: map_values_def)

lemma set_insertByDate: "set (insertByDate x ys) = insert x (set ys)"
  by (induction ys) auto

lemma mset_insertByDate: "mset (insertByDate x ys) = add_mset x (mset ys)"
  by (induction ys) auto

lemma mset_sortByDateDesc: "mset (sortByDateDesc xs) = mset xs"
  by (induction xs) (simp_all add: sortByDateDesc_def mset_insertByDate)

lemma set_sortByDateDesc: "set (sortByDateDesc xs) = set xs"
  using mset_sortByDateDesc [of xs] by (rule mset_eq_setD)

lemma sorted_insertByDate:
  "sorted_wrt (\<lambda>a b. date b \<le> date a) ys \<Longrightarrow>
   sorted_wrt (\<lambda>a b. date b \<le> date a) (insertByDate x ys)"
  by (induction ys) (auto simp: set_insertByDate)

lemma sorted_sortByDateDesc: "sorted_wrt (\<lambda>a b. date b \<le> date a) (sortByDateDesc xs)"
  by (induction xs) (simp_all add: sortByDateDesc_def sorted_insertByDate)

lemma distinct_map_mset:
  assumes "mset xs = mset ys" and "distinct (map f xs)"
  shows "distinct (map f ys)"
proof -
  have "mset (map f xs) = mset (map f ys)"
    using assms(1) by simp
  then show ?thesis
    using assms(2) mset_eq_imp_distinct_iff by blast
qed

lemma mergeLogs_keyed: "mergeLogs prev incoming = sortByDateDesc (map_values (keyed (prev @ incoming)))"
  by (simp add: mergeLogs_def keyed_def isLog_logVal)

lemma find_by_id_distinct:
  "distinct (map id' xs) \<Longrightarrow> find (\<lambda>l. id' l = i) xs = Some l \<longleftrightarrow> l \<in> set xs \<and> id' l = i"
  by (induction xs) force+

lemma find_by_id_None: "find (\<lambda>l. id' l = i) xs = None \<longleftrightarrow> i \<notin> id' ` set xs"
  by (auto simp: find_None_iff)

lemma merged_distinct: "distinct (map id' (sortByDateDesc (map_values (keyed ls))))"
proof -
  have "distinct (map id' (map_values (keyed ls)))"
    by (simp add: keyed_ids keyed_distinct)
  then show ?thesis
    using distinct_map_mset [OF mset_sortByDateDesc [symmetric]] by blast
qed

lemma keyed_mem:
  "l \<in> set (map_values (keyed ls)) \<and> id' l = i \<longleftrightarrow> map_of (keyed ls) i = Some l"
proof
  assume a: "l \<in> set (map_values (keyed ls)) \<and> id' l = i"
  then obtain k where "(k, l) \<in> set (keyed ls)" by (auto simp: map_values_def)
  moreover from this have "k = i" using keyed_key_is_id a by blast
  ultimately show "map_of (keyed ls) i = Some l"
    using keyed_distinct [of ls] by simp
next
  assume "map_of (keyed ls) i = Some l"
  then have m: "(i, l) \<in> set (keyed ls)" by (rule map_of_SomeD)
  then have "id' l = i" by (rule keyed_key_is_id)
  moreover have "l \<in> set (map_values (keyed ls))"
    using m by (force simp: map_values_def)
  ultimately show "l \<in> set (map_values (keyed ls)) \<and> id' l = i" by simp
qed

text \<open>
  C6. After a merge no two entries of the result share an identifier.
\<close>

theorem mergeLogs_ids_distinct: "distinct (map id' (mergeLogs prev incoming))"
  unfolding mergeLogs_keyed by (rule merged_distinct)

lemma find_mergeLogs:
  "find (\<lambda>l. id' l = i) (mergeLogs prev incoming) = find (\<lambda>l. id' l = i) (rev (prev @ incoming))"
proof (cases "find (\<lambda>l. id' l = i) (rev (prev @ incoming))")
  case None
  then have "map_of (keyed (prev @ incoming)) i = None" by (simp only: keyed_map_of)
  then have "\<forall>l. \<not> (l \<in> set (map_values (keyed (prev @ incoming))) \<and> id' l = i)"
    by (simp add: keyed_mem)
  then have "i \<notin> id' ` set (mergeLogs prev incoming)"
    by (auto simp: mergeLogs_keyed set_sortByDateDesc)
  then have "find (\<lambda>l. id' l = i) (mergeLogs prev incoming) = None"
    by (simp add: find_by_id_None)
  then show ?thesis using None by simp
next
  case (Some l)
  then have "map_of (keyed (prev @ incoming)) i = Some l" by (simp only: keyed_map_of)
  then have "l \<in> set (map_values (keyed (prev @ incoming))) \<and> id' l = i"
    by (simp only: keyed_mem)
  then have "l \<in> set (mergeLogs prev incoming) \<and> id' l = i"
    by (simp add: mergeLogs_keyed set_sortByDateDesc)
  then have "find (\<lambda>l. id' l = i) (mergeLogs prev incoming) = Some l"
    using find_by_id_distinct [OF merged_distinct, of i "prev @ incoming" l]
    by (simp add: mergeLogs_keyed)
  then show ?thesis using Some by simp
qed

text \<open>
  C3. The merge is keyed by identifier: looking an identifier up in the result gives the
  last incoming entry that carries it and, when no incoming entry does, the last
  existing one; and the result is sorted by date, later dates first, in the order
  of strings.
\<close>

theorem mergeLogs_last_write_wins_sorted:
  "find (\<lambda>l. id' l = i) (mergeLogs prev incoming) =
     (case find (\<lambda>l. id' l = i) (rev incoming) of
        Some l \<Rightarrow> Some l
      | None \<Rightarrow> find (\<lambda>l. id' l = i) (rev prev))
   \<and> sorted_wrt (\<lambda>a b. date b \<le> date a) (mergeLogs prev incoming)"
proof -
  have "sorted_wrt (\<lambda>a b. date b \<le> date a) (mergeLogs prev incoming)"
    by (simp add: mergeLogs_keyed sorted_sortByDateDesc)
  then show ?thesis
    by (simp add: find_mergeLogs find_app split: option.splits)
qed

section \<open>Properties of the personal records\<close>

lemma finite_weightsOf: "finite (weightsOf ls e)"
proof -
  have "weightsOf ls e \<subseteq> (\<lambda>l. case weight l of Num w \<Rightarrow> w | NaN \<Rightarrow> 0) ` set ls"
    by (force simp: weightsOf_def)
  then show ?thesis by (rule finite_surj [rotated]) simp
qed

lemma weightsOf_Cons:
  "weightsOf (a # ls) e =
     (case weight a of Num w \<Rightarrow> if exercise a = e then insert w (weightsOf ls e) else weightsOf ls e
      | NaN \<Rightarrow> weightsOf ls e)"
  by (auto simp: weightsOf_def split: jsnum.splits)

lemma foldl_best:
  "res e = Num r \<Longrightarrow>
   foldl (\<lambda>res l. if gt (weight l) (res (exercise l)) then res(exercise l := weight l) else res) res ls e
     = Num (Max (insert r (weightsOf ls e)))"
proof (induction ls arbitrary: res r)
  case Nil
  then show ?case by (simp add: weightsOf_def)
next
  case (Cons a ls)
  let ?res' = "if gt (weight a) (res (exercise a)) then res(exercise a := weight a) else res"
  show ?case
  proof (cases "exercise a = e")
    case False
    then have "?res' e = Num r" using Cons.prems by simp
    from Cons.IH [of ?res' r, OF this] show ?thesis using False by (simp add: weightsOf_Cons split: jsnum.splits)
  next
    case True
    show ?thesis
    proof (cases "weight a")
      case NaN
      then have "?res' e = Num r" using Cons.prems by simp
      from Cons.IH [of ?res' r, OF this] show ?thesis using NaN by (simp add: weightsOf_Cons)
    next
      case (Num w)
      have fin: "finite (weightsOf ls e)" by (rule finite_weightsOf)
      have "?res' e = Num (max w r)" using Cons.prems True Num by (simp add: max_def)
      from Cons.IH [of ?res' "max w r", OF this]
      have "foldl (\<lambda>res l. if gt (weight l) (res (exercise l)) then res(exercise l := weight l) else res) ?res' ls e
             = Num (Max (insert (max w r) (weightsOf ls e)))" .
      moreover have "Max (insert (max w r) (weightsOf ls e)) = Max (insert r (insert w (weightsOf ls e)))"
        using fin by (cases "weightsOf ls e = {}") (simp_all add: max.commute max.left_commute)
      ultimately show ?thesis using True Num by (simp add: weightsOf_Cons)
    qed
  qed
qed

lemma bestWeights_spec: "bestWeights ls e = Num (bestWeight_spec ls e)"
  unfolding bestWeights_def bestWeight_spec_def by (rule foldl_best) simp

lemma in_EXERCISES: "e \<in> set EXERCISES"
  by (cases e) (simp_all add: EXERCISES_def)

text \<open>
  C4. An exercise is flagged as a personal record exactly when its best weight among
  the entries of the selected date is greater than 0 and greater than its best
  weight among the entries of every other date; when the two best weights are
  equal it is not flagged.
\<close>

theorem prSet_iff:
  "(ex \<in> set (prSet entries dateStr) \<longleftrightarrow>
      bestWeight_spec (filter (\<lambda>l. date l = dateStr) entries) ex > 0 \<and>
      bestWeight_spec (filter (\<lambda>l. date l = dateStr) entries) ex
        > bestWeight_spec (filter (\<lambda>l. date l \<noteq> dateStr) entries) ex)
   \<and> (bestWeight_spec (filter (\<lambda>l. date l = dateStr) entries) ex
        = bestWeight_spec (filter (\<lambda>l. date l \<noteq> dateStr) entries) ex
      \<longrightarrow> ex \<notin> set (prSet entries dateStr))"
  by (simp add: prSet_def todayBestByExercise_def prevBestByExercise_def logsForDate_def
      bestWeights_spec in_EXERCISES)


theorem prSet_iff_witness:
  "bestWeight_spec (filter (\<lambda>l. date l = u16 ''2024-01-03'') tieLogs) BenchPress
     = bestWeight_spec (filter (\<lambda>l. date l \<noteq> u16 ''2024-01-03'') tieLogs) BenchPress
   \<and> BenchPress \<notin> set (prSet tieLogs (u16 ''2024-01-03''))"
proof -
  have a: "bestWeight_spec (filter (\<lambda>l. date l = u16 ''2024-01-03'') tieLogs) BenchPress = 85"
    using bestWeights_spec [of "filter (\<lambda>l. date l = u16 ''2024-01-03'') tieLogs" BenchPress]
    by (simp add: bestWeights_def tieLogs_def benchPress_def u16_def)
  have b: "bestWeight_spec (filter (\<lambda>l. date l \<noteq> u16 ''2024-01-03'') tieLogs) BenchPress = 85"
    using bestWeights_spec [of "filter (\<lambda>l. date l \<noteq> u16 ''2024-01-03'') tieLogs" BenchPress]
    by (simp add: bestWeights_def tieLogs_def benchPress_def u16_def)
  show ?thesis
    using prSet_iff [of BenchPress tieLogs "u16 ''2024-01-03''"] a b by simp
qed

section \<open>Properties of the JSON import\<close>

lemma normalizeExercise_label: "normalizeExercise (JString (label e)) = e"
  by (cases e) (simp_all add: EXERCISES_def)

lemma importJSON_all: "importJSON P obj = map (\<lambda>(n, l). importEntry P (freshId P n) l) (enumerate 0 (importArray obj))"
  by (simp add: importJSON_def isLog_logVal)

lemma importArray_exportJSON: "importArray (exportJSON ls) = map jsonOfLog ls"
  by (simp add: importArray_def exportJSON_def u16_def)

lemma importArray_JArray: "importArray (JArray xs) = xs"
  by (simp add: importArray_def)

lemma map_enumerate_map:
  "(\<And>n l. l \<in> set xs \<Longrightarrow> f n (g l) = h l) \<Longrightarrow>
   map (\<lambda>(n, l). f n l) (enumerate k (map g xs)) = map h xs"
  by (induction xs arbitrary: k) simp_all

lemma importEntry_reimported: "importEntry P fresh (jsonOfLog l) = reimported l"
proof -
  have e: "importEntry P fresh (jsonOfLog l) =
      \<lparr>id' = id' l, date = take 10 (date l), exercise = exercise l,
       weight = (if isNaN (weight l) then Num 0 else weight l),
       reps = (if isNaN (reps l) then Num 0 else reps l),
       note = (case note l of None \<Rightarrow> None | Some n \<Rightarrow> if trim n \<noteq> [] then Some n else None)\<rparr>"
    by (cases "note l")
      (simp_all add: importEntry_def jsonOfLog_def jsonOfNumber_def u16_def
        normalizeExercise_label del: normalizeExercise.simps)
  show ?thesis unfolding e by (cases l) (simp add: reimported_def)
qed

lemma reimported_id:
  assumes "valid_spec l" and "length (date l) \<le> 10"
    and "case note l of None \<Rightarrow> True | Some n \<Rightarrow> trim n \<noteq> []"
  shows "reimported l = l"
proof -
  have "weight l \<noteq> NaN" "reps l \<noteq> NaN"
    using assms(1) by (cases "weight l"; cases "reps l"; simp add: valid_spec_def)+
  then show ?thesis
    using assms(2,3) by (cases l) (auto simp: reimported_def isNaN_def split: option.splits)
qed

text \<open>
  C5, as the code has it. The exported payload is the wrapper \<open>{version, logs}\<close> with
  version 2. The import reads the payload, and also the bare sequence of the
  entries, back as the entries with the date cut to its first ten code units, a
  NaN weight or number of repetitions read as 0, and a blank note dropped. So a
  collection comes back as itself, identifiers included, when its entries are
  valid and have a date of at most ten code units and a note that is absent or
  not blank.
\<close>

theorem importJSON_exportJSON:
  "getProp (exportJSON ls) (u16 ''version'') = JNumber (Num 2)
   \<and> getProp (exportJSON ls) (u16 ''logs'') = JArray (map jsonOfLog ls)
   \<and> importJSON P (exportJSON ls) = map reimported ls
   \<and> importJSON P (JArray (map jsonOfLog ls)) = map reimported ls
   \<and> ((\<forall>l \<in> set ls. valid_spec l \<and> length (date l) \<le> 10 \<and>
                      (case note l of None \<Rightarrow> True | Some n \<Rightarrow> trim n \<noteq> []))
        \<longrightarrow> importJSON P (exportJSON ls) = ls \<and> importJSON P (JArray (map jsonOfLog ls)) = ls)"
proof -
  have m: "map (\<lambda>(n, l). importEntry P (freshId P n) l) (enumerate 0 (map jsonOfLog ls))
      = map reimported ls"
    by (intro map_enumerate_map importEntry_reimported)
  have a: "importJSON P (exportJSON ls) = map reimported ls"
    and b: "importJSON P (JArray (map jsonOfLog ls)) = map reimported ls"
    using m by (simp_all add: importJSON_all importArray_exportJSON importArray_JArray)
  have c: "getProp (exportJSON ls) (u16 ''version'') = JNumber (Num 2)"
    and d: "getProp (exportJSON ls) (u16 ''logs'') = JArray (map jsonOfLog ls)"
    by (simp_all add: exportJSON_def u16_def)
  have e: "map reimported ls = ls"
    if "\<forall>l \<in> set ls. valid_spec l \<and> length (date l) \<le> 10 \<and>
                      (case note l of None \<Rightarrow> True | Some n \<Rightarrow> trim n \<noteq> [])"
    using that by (intro map_idI reimported_id) auto
  from a b c d e show ?thesis by simp
qed

lemma model_squatWithNote:
  "valid_spec (squatWithNote (u16 ''good, form'')) \<and>
   length (date (squatWithNote (u16 ''good, form''))) \<le> 10 \<and>
   trim (u16 ''good, form'') \<noteq> [] \<and> note (squatWithNote (u16 ''good, form'')) = Some (u16 ''good, form'')"
  by (simp add: valid_spec_def squatWithNote_def u16_def trim_def isWhiteSpace_def)

lemma model_tieLogs:
  "\<forall>l \<in> set tieLogs. valid_spec l \<and> length (date l) \<le> 10 \<and> note l = None"
  by (simp add: valid_spec_def tieLogs_def benchPress_def u16_def)

theorem importJSON_exportJSON_witness:
  "importJSON examplePlatform (exportJSON (squatWithNote (u16 ''good, form'') # tieLogs))
     = squatWithNote (u16 ''good, form'') # tieLogs"
proof -
  have "\<forall>l \<in> set (squatWithNote (u16 ''good, form'') # tieLogs).
          valid_spec l \<and> length (date l) \<le> 10 \<and>
          (case note l of None \<Rightarrow> True | Some n \<Rightarrow> trim n \<noteq> [])"
    using model_squatWithNote model_tieLogs by simp
  then show ?thesis
    using importJSON_exportJSON [of "squatWithNote (u16 ''good, form'') # tieLogs" examplePlatform]
    by blast
qed

text \<open>
  C5 as stated fails on a valid entry whose date is longer than \<open>YYYY-MM-DD\<close>: the
  date comes back cut.
\<close>

theorem importJSON_long_date:
  "valid_spec longDateEntry
   \<and> importJSON examplePlatform (exportJSON [longDateEntry])
       = [longDateEntry\<lparr>date := u16 ''2024-02-01''\<rparr>]
   \<and> importJSON examplePlatform (exportJSON [longDateEntry]) \<noteq> [longDateEntry]"
proof -
  have "importEntry examplePlatform (freshId examplePlatform 0) (jsonOfLog longDateEntry)
      = longDateEntry\<lparr>date := u16 ''2024-02-01''\<rparr>"
    by (simp add: importEntry_reimported reimported_def longDateEntry_def isNaN_def u16_def)
  then have "importJSON examplePlatform (exportJSON [longDateEntry])
       = [longDateEntry\<lparr>date := u16 ''2024-02-01''\<rparr>]"
    by (simp add: importJSON_all importArray_exportJSON)
  moreover have "longDateEntry\<lparr>date := u16 ''2024-02-01''\<rparr> \<noteq> longDateEntry"
    by (simp add: longDateEntry_def u16_def)
  moreover have "valid_spec longDateEntry"
    by (simp add: valid_spec_def longDateEntry_def u16_def)
  ultimately show ?thesis by simp
qed

text \<open>
  C1. The JSON import keeps an element whose date is empty, whose weight is negative
  and whose number of repetitions is 0; it keeps every element of the array it
  reads, since \<open>isLog\<close> holds of every entry it builds. The CSV import drops a row
  with an empty date, or with a weight that is NaN or not positive.
\<close>

theorem importJSON_keeps_invalid:
  "importJSON P (JArray [invalidElement])
     = [\<lparr>id' = u16 ''x'', date = [], exercise = Squat, weight = Num (- 5), reps = Num 0,
         note = None\<rparr>]
   \<and> length (importJSON P obj) = length (importArray obj)
   \<and> csvRowToLog P suffix
        \<lparr>r_date = [], r_exercise = label Squat, r_weight = w, r_reps = r, r_note = None\<rparr> = None"
proof -
  have "importEntry P (freshId P 0) invalidElement
     = \<lparr>id' = u16 ''x'', date = [], exercise = Squat, weight = Num (- 5), reps = Num 0,
         note = None\<rparr>"
    by (simp add: importEntry_def invalidElement_def u16_def EXERCISES_def)
  then show ?thesis
    by (simp add: importJSON_all importArray_JArray csvRowToLog_def)
qed

section \<open>Properties of the import of a file\<close>

text \<open>
  C9. For a file whose name ends neither in \<open>.json\<close> nor in \<open>.csv\<close>, the import shows
  the rejection message and leaves the collection as it was.
\<close>

theorem onImportFile_other_extension:
  assumes "\<not> endsWith name (u16 ''.json'')" and "\<not> endsWith name (u16 ''.csv'')"
  shows "toast (onImportFile P st (Some (name, text))) = toastRejected
       \<and> logs (onImportFile P st (Some (name, text))) = logs st"
  using assms by (simp add: onImportFile_def)

theorem onImportFile_other_extension_witness:
  "toast (onImportFile examplePlatform \<lparr>logs = tieLogs, toast = []\<rparr>
            (Some (u16 ''logs.txt'', u16 ''date,exercise''))) = toastRejected
   \<and> logs (onImportFile examplePlatform \<lparr>logs = tieLogs, toast = []\<rparr>
            (Some (u16 ''logs.txt'', u16 ''date,exercise''))) = tieLogs"
  using onImportFile_other_extension [of "u16 ''logs.txt''" examplePlatform
      "\<lparr>logs = tieLogs, toast = []\<rparr>" "u16 ''date,exercise''"]
  by (simp add: endsWith_def u16_def)

section \<open>Properties of the CSV decoder\<close>














section \<open>The CSV round trip\<close>

lemmas csv_defs = csvRoundTrip_def toCSV_def parseCSV_def csvLines_def csvRowsToLogs_def
  csvRowToLog_def csvRowOf_def csvObject_def csvCell_def CSV_HEADER_def needsQuoting_def
  doubleQuotes_def examplePlatform_def decimalString_def decimalNumber_def digitsValue_def
  isDigit_def digit_def trim_def isWhiteSpace_def orEmpty_def elemAt_def squatWithNote_def
  twoLineNote_def u16_def LF_def CR_def COMMA_def QUOTE_def isNaN_def EXERCISES_def
  List.map_filter_def Let_def

text \<open>
  C2. For an entry of the data model whose note has two lines, the composition of
  \<open>toCSV\<close>, \<open>parseCSV\<close> and \<open>csvRowsToLogs\<close> returns an entry whose note is the
  first line only: \<open>toCSV\<close> quotes the note, and \<open>parseCSV\<close> cuts the text into lines
  before it reads any quote.
\<close>

theorem csvRoundTrip_two_line_note:
  "validEntry (squatWithNote twoLineNote)
   \<and> csvRoundTrip examplePlatform [squatWithNote twoLineNote]
     = Inr [\<lparr>id' = u16 ''2024-02-01-'' @ label Squat @ u16 ''-r0'',
            date = u16 ''2024-02-01'', exercise = Squat, weight = Num 100, reps = Num 3,
            note = Some (u16 ''a'')\<rparr>]"
  by (simp add: csv_defs validEntry_def)

section \<open>Properties of the migration\<close>

lemma migrationRows_kept:
  "list_all (\<lambda>r. row_date r \<noteq> [] \<and> gt (row_weight r) (Num 0) \<and> gt (row_reps r) (Num 0))
     (migrationRows P userId arr)"
  by (simp add: migrationRows_def list_all_iff)

lemma migrationRows_dropped:
  "row_date (migrationRow P userId l) = [] \<or> \<not> gt (row_weight (migrationRow P userId l)) (Num 0)
     \<or> \<not> gt (row_reps (migrationRow P userId l)) (Num 0)
   \<Longrightarrow> migrationRows P userId [l] = []"
  by (auto simp: migrationRows_def)

text \<open>
  C8. With a snapshot of one entry of the data model, and a batch insert that is
  answered with an error, the migration submits the entry and removes the
  snapshot all the same; only a rejected promise leaves the snapshot in place.
\<close>

theorem migrate_removes_snapshot_on_error:
  "migrate snapshotPlatform (u16 ''user'') (\<lambda>rows. Fulfilled (Some (u16 ''denied'')))
     (Some (u16 ''snapshot''))
   = (Some [\<lparr>row_date = u16 ''2024-02-01'', row_exercise = Squat, row_weight = Num 100,
             row_reps = Num 3, row_note = Some (u16 ''ok''), user_id = u16 ''user''\<rparr>],
      None)
   \<and> migrate snapshotPlatform (u16 ''user'') (\<lambda>rows. Rejected) (Some (u16 ''snapshot''))
   = (Some [\<lparr>row_date = u16 ''2024-02-01'', row_exercise = Squat, row_weight = Num 100,
             row_reps = Num 3, row_note = Some (u16 ''ok''), user_id = u16 ''user''\<rparr>],
      Some (u16 ''snapshot''))"
  by (simp add: migrate_def snapshotPlatform_def examplePlatform_def exportJSON_def jsonOfLog_def
      jsonOfNumber_def isNaN_def squatWithNote_def migrationRows_def migrationRow_def
      trim_def isWhiteSpace_def u16_def EXERCISES_def)

section \<open>Properties of the date strings\<close>

declare natDigits.simps [simp del]
















section \<open>Properties of the calendar\<close>











section \<open>Properties of the daily volume\<close>























end
